theory Spec2Isabelle
  imports Main "HOL-Library.Sublist"
begin

section \<open>The environment of \<open>extract_zip.py\<close>\<close>

text \<open>
  The program is one class, \<open>ExtractZip\<close>, whose methods call into the Python
  library: \<open>zipfile.ZipFile\<close>, \<open>pandas.read_csv\<close>, \<open>datetime.strptime\<close>,
  \<open>time.mktime\<close>, \<open>os.makedirs\<close>, \<open>open\<close> and \<open>os.utime\<close>. The class is
  embedded as it is written; the library calls are modelled by what they return, what
  they raise and what they change, on a POSIX system (the separator is \<open>/\<close>, which is
  also the character the source tests for), for a process that may search and write
  every directory of the destination tree, on a disk that is not full.

  Exceptions are values: the classes below are the built-in ones that the library calls
  of the source raise. The source defines no exception class of its own.
\<close>

datatype error =
    KeyError | ValueError | TypeError | AttributeError | OverflowError
  | FileNotFoundError | NotADirectoryError | IsADirectoryError | FileExistsError
  | OSError | BadZipFile | ParserError

type_synonym bytes = string

subsection \<open>Paths and the destination tree\<close>

text \<open>
  A path string is read as its list of components: it is split at \<open>/\<close>, empty
  components (from \<open>//\<close> or a trailing \<open>/\<close>) are dropped, and an absolute path
  starts with the component \<open>/\<close>. The key \<open>[]\<close> is the working directory of the
  process and \<open>[''/'']\<close> is the root; both are directories that always exist.
  The components \<open>.\<close> and \<open>..\<close> are not interpreted, and there are no links:
  \<open>path_of\<close> reads them as names, where the system resolves them.
\<close>

type_synonym path = "string list"

fun split_sep :: "string \<Rightarrow> string list" where
  "split_sep [] = [[]]"
| "split_sep (c # cs) =
     (if c = CHR ''/'' then [] # split_sep cs
      else (case split_sep cs of [] \<Rightarrow> [[c]] | x # xs \<Rightarrow> (c # x) # xs))"

definition path_of :: "string \<Rightarrow> path" where
  "path_of s =
     (if take 1 s = ''/'' then [''/''] else []) @ filter (\<lambda>c. c \<noteq> []) (split_sep s)"

definition endswith :: "string \<Rightarrow> string \<Rightarrow> bool" where
  "endswith s suf =
     (length suf \<le> length s \<and> drop (length s - length suf) s = suf)"


text \<open>
  A file carries its bytes and the two times that \<open>os.utime\<close> sets (whole seconds
  since the epoch); a directory carries nothing.
\<close>

datatype node = Dir | File (content: bytes) (atime: int) (mtime: int)

type_synonym filesystem = "path \<rightharpoonup> node"

definition is_root :: "path \<Rightarrow> bool" where
  "is_root p = (p = [] \<or> p = [''/''])"

definition isdir :: "filesystem \<Rightarrow> path \<Rightarrow> bool" where
  "isdir f p = (is_root p \<or> f p = Some Dir)"

definition isfile :: "filesystem \<Rightarrow> path \<Rightarrow> bool" where
  "isfile f p = (\<not> is_root p \<and> (case f p of Some (File d a m) \<Rightarrow> True | _ \<Rightarrow> False))"

definition ancestors :: "path \<Rightarrow> path list" where
  "ancestors p = butlast (prefixes p)"

text \<open>
  \<open>os.makedirs(name, exist_ok=True)\<close>: every component of the path that is missing
  is created as a directory, the existing ones are kept. It raises when a component on
  the way is a file (\<open>NotADirectoryError\<close>) or when the path itself is a file
  (\<open>FileExistsError\<close>, which \<open>exist_ok\<close> lets through only for a directory); in a
  tree nothing above a file is missing, so nothing has been created by then.
\<close>

definition makedirs :: "filesystem \<Rightarrow> string \<Rightarrow> error + filesystem" where
  "makedirs f s =
     (let p = path_of s in
      if s = [] then Inl FileNotFoundError
      else if list_ex (isfile f) (ancestors p) then Inl NotADirectoryError
      else if isfile f p then Inl FileExistsError
      else Inr (\<lambda>q. if prefix q p \<and> \<not> is_root q then Some Dir else f q))"

text \<open>
  \<open>with open(path, 'wb') as f: f.write(data)\<close>: the directory that holds the file
  must exist, and \<open>open\<close> creates no directory. The file is created, or truncated and
  rewritten in full; the system stamps it with its clock (\<open>now\<close>).
\<close>

definition open_wb :: "int \<Rightarrow> filesystem \<Rightarrow> string \<Rightarrow> bytes \<Rightarrow> error + filesystem" where
  "open_wb now f s data =
     (let p = path_of s in
      if s = [] then Inl FileNotFoundError
      else if list_ex (isfile f) (ancestors p) then Inl NotADirectoryError
      else if \<not> list_all (isdir f) (ancestors p) then Inl FileNotFoundError
      else if isdir f p then Inl IsADirectoryError
      else Inr (f(p \<mapsto> File data (case f p of Some (File d a m) \<Rightarrow> a | _ \<Rightarrow> now) now)))"


definition utime :: "filesystem \<Rightarrow> string \<Rightarrow> int \<times> int \<Rightarrow> error + filesystem" where
  "utime f s ts =
     (let p = path_of s in
      if isfile f p then
        (case f p of
           Some (File d a m) \<Rightarrow> Inr (f(p \<mapsto> File d (fst ts) (snd ts)))
         | _ \<Rightarrow> Inr f)
      else if isdir f p \<and> s \<noteq> [] then Inr f
      else Inl FileNotFoundError)"

subsection \<open>The archive\<close>

text \<open>
  A \<open>zipfile.ZipFile\<close> opened for reading: its entries by name (a corrupt entry reads
  as the error it raises), whether its file pointer is still open, and what releasing
  the file pointer raises, if anything. \<open>read\<close> checks the file pointer before it
  looks the name up; \<open>close\<close> drops the file pointer before it releases it.
\<close>

record zipfile =
  entries :: "string \<rightharpoonup> (error + bytes)"
  fp :: bool
  release_error :: "error option"

definition zip_read :: "zipfile \<Rightarrow> string \<Rightarrow> error + bytes" where
  "zip_read z name =
     (if \<not> fp z then Inl ValueError
      else (case entries z name of None \<Rightarrow> Inl KeyError | Some r \<Rightarrow> r))"

definition zip_close :: "zipfile \<Rightarrow> zipfile \<times> error option" where
  "zip_close z = (z\<lparr>fp := False\<rparr>, if fp z then release_error z else None)"

subsection \<open>The manifest table\<close>

text \<open>
  The data frame that \<open>pandas.read_csv\<close> returns, column by column, under the
  names of the header row. Every cell is a string: a column that pandas would read as
  numbers, and a missing cell, are outside this model. \<open>df[[a, b, c, d]]\<close> raises
  \<open>KeyError\<close> when one of the labels is not a column, and
  \<open>itertuples(index=False, name=None)\<close> zips the selected columns.
\<close>

type_synonym dataframe = "(string \<times> string list) list"

type_synonym row = "string \<times> string \<times> string \<times> string"

definition select_rows ::
  "dataframe \<Rightarrow> string \<Rightarrow> string \<Rightarrow> string \<Rightarrow> string \<Rightarrow> error + row list" where
  "select_rows d a b c e =
     (case (map_of d a, map_of d b, map_of d c, map_of d e) of
        (Some xa, Some xb, Some xc, Some xe) \<Rightarrow> Inr (zip xa (zip xb (zip xc xe)))
      | _ \<Rightarrow> Inl KeyError)"

subsection \<open>Dates\<close>

text \<open>
  \<open>datetime.strptime(value, format)\<close> and \<open>time.mktime\<close> are parameters: the first
  returns the fields of the date or raises \<open>ValueError\<close>, the second turns them into
  seconds since the epoch in the local time zone. \<open>clock\<close> is the time the system
  stamps on a file when it is written.
\<close>

type_synonym struct_time = "int \<times> int \<times> int \<times> int \<times> int \<times> int"

record pylib =
  strptime :: "string \<Rightarrow> string \<Rightarrow> error + struct_time"
  mktime :: "struct_time \<Rightarrow> error + int"
  clock :: int

definition to_epoch :: "pylib \<Rightarrow> string \<Rightarrow> string \<Rightarrow> error + int" where
  "to_epoch lib s fmt =
     (case strptime lib s fmt of Inl e \<Rightarrow> Inl e | Inr tm \<Rightarrow> mktime lib tm)"

section \<open>The class \<open>ExtractZip\<close>\<close>

text \<open>
  An attribute that \<open>__init__\<close> may not have reached is an option: \<open>None\<close> is
  "not set". The column names are plain assignments after the two calls that can raise.
  The field \<open>closed\<close> is the attribute \<open>_closed\<close>.
\<close>

record session =
  zip_file :: "zipfile option"
  df :: "dataframe option"
  input_col :: string
  output_col :: string
  creation_date_col :: string
  modified_date_col :: string
  closed :: "bool option"

text \<open>
  \<open>__init__\<close>, given what \<open>zipfile.ZipFile(zip_file)\<close> and
  \<open>pd.read_csv(manifest)\<close> return or raise. The object is returned also when
  \<open>__init__\<close> raises, since \<open>__del__\<close> still runs on it.
\<close>

definition init ::
  "error + zipfile \<Rightarrow> error + dataframe \<Rightarrow> string \<Rightarrow> string \<Rightarrow> string \<Rightarrow> string
     \<Rightarrow> session \<times> error option" where
  "init zopen csv ic oc cc mc =
     (let s0 = \<lparr>zip_file = None, df = None, input_col = ic, output_col = oc,
                creation_date_col = cc, modified_date_col = mc, closed = None\<rparr>
      in case zopen of
           Inl e \<Rightarrow> (s0, Some e)
         | Inr z \<Rightarrow>
             (case csv of
                Inl e \<Rightarrow> (s0\<lparr>zip_file := Some z\<rparr>, Some e)
              | Inr d \<Rightarrow> (s0\<lparr>zip_file := Some z, df := Some d, closed := Some False\<rparr>, None)))"

text \<open>
  \<open>close\<close>: \<open>getattr(self, "_closed", True)\<close> reads a missing flag as closed; the
  flag is set in the \<open>finally\<close> clause, whatever \<open>zip_file.close()\<close> raised.
\<close>

definition close :: "session \<Rightarrow> session \<times> error option" where
  "close s =
     (if \<not> (case closed s of None \<Rightarrow> True | Some b \<Rightarrow> b) then
        (case zip_file s of
           None \<Rightarrow> (s\<lparr>closed := Some True\<rparr>, Some AttributeError)
         | Some z \<Rightarrow>
             (s\<lparr>zip_file := Some (fst (zip_close z)), closed := Some True\<rparr>,
              snd (zip_close z)))
      else (s, None))"

text \<open>\<open>__exit__\<close> calls \<open>close\<close> and lets its exception through; \<open>__del__\<close> swallows it.\<close>

definition exit_session :: "session \<Rightarrow> session \<times> error option" where
  "exit_session s = close s"

definition del_session :: "session \<Rightarrow> session \<times> error option" where
  "del_session s = (fst (close s), None)"

subsection \<open>\<open>extract\<close> (here \<open>extract_files\<close>: \<open>extract\<close> is a command of Isabelle)\<close>

text \<open>
  What \<open>extract\<close> changes: the destination tree and the standard output. \<open>calls\<close>
  records, in order, the library calls that changed the tree.
\<close>

datatype fscall =
    Makedirs string
  | Write string bytes
  | Utime string int int

record world =
  fs :: filesystem
  stdout :: "(string \<times> string \<times> int \<times> int) list"
  calls :: "fscall list"

text \<open>\<open>self.zip_file.read(zipped)\<close>.\<close>

definition read_entry :: "session \<Rightarrow> string \<Rightarrow> error + bytes" where
  "read_entry s name =
     (case zip_file s of None \<Rightarrow> Inl AttributeError | Some z \<Rightarrow> zip_read z name)"

text \<open>The body of the loop, for one tuple of the manifest.\<close>

definition extract_row ::
  "pylib \<Rightarrow> session \<Rightarrow> string \<Rightarrow> row \<Rightarrow> world \<Rightarrow> world \<times> error option" where
  "extract_row lib s date_format r w =
     (case r of (zipped, out_path, creation_date, modified_date) \<Rightarrow>
      (case to_epoch lib creation_date date_format of
         Inl e \<Rightarrow> (w, Some e)
       | Inr c \<Rightarrow>
      (case to_epoch lib modified_date date_format of
         Inl e \<Rightarrow> (w, Some e)
       | Inr m \<Rightarrow>
      (let w1 = w\<lparr>stdout := stdout w @ [(zipped, out_path, c, m)]\<rparr> in
       case read_entry s zipped of
         Inl e \<Rightarrow> (w1, Some e)
       | Inr data \<Rightarrow>
           if endswith out_path ''/'' then
             (case makedirs (fs w1) out_path of
                Inl e \<Rightarrow> (w1, Some e)
              | Inr f \<Rightarrow> (w1\<lparr>fs := f, calls := calls w1 @ [Makedirs out_path]\<rparr>, None))
           else
             (case open_wb (clock lib) (fs w1) out_path data of
                Inl e \<Rightarrow> (w1, Some e)
              | Inr f \<Rightarrow>
                  (let w2 = w1\<lparr>fs := f, calls := calls w1 @ [Write out_path data]\<rparr> in
                   case utime f out_path (c, m) of
                     Inl e \<Rightarrow> (w2, Some e)
                   | Inr f' \<Rightarrow>
                       (w2\<lparr>fs := f', calls := calls w2 @ [Utime out_path c m]\<rparr>, None)))))))"

text \<open>The loop: an exception ends it where it is raised.\<close>

fun extract_rows ::
  "pylib \<Rightarrow> session \<Rightarrow> string \<Rightarrow> row list \<Rightarrow> world \<Rightarrow> world \<times> error option" where
  "extract_rows lib s date_format [] w = (w, None)"
| "extract_rows lib s date_format (r # rs) w =
     (case extract_row lib s date_format r w of
        (w', Some e) \<Rightarrow> (w', Some e)
      | (w', None) \<Rightarrow> extract_rows lib s date_format rs w')"

text \<open>
  \<open>extract\<close>: the four columns are selected before the first tuple is drawn. The
  method reads \<open>self.df\<close> and, in the loop, \<open>self.zip_file\<close>; it never looks at
  \<open>_closed\<close>.
\<close>

definition extract_files :: "pylib \<Rightarrow> session \<Rightarrow> string \<Rightarrow> world \<Rightarrow> world \<times> error option" where
  "extract_files lib s date_format w =
     (case df s of
        None \<Rightarrow> (w, Some AttributeError)
      | Some d \<Rightarrow>
          (case select_rows d (input_col s) (output_col s)
                  (creation_date_col s) (modified_date_col s) of
             Inl e \<Rightarrow> (w, Some e)
           | Inr rows \<Rightarrow> extract_rows lib s date_format rows w))"

section \<open>A sample run\<close>

text \<open>
  A concrete environment for the examples: an archive with the file \<open>a.txt\<close> and
  the directory entry \<open>dir/\<close>, a date parser that knows the format
  \<open>%Y-%m-%dT%H:%M:%S\<close> on two dates (read in UTC), and manifests with the
  default column names.
\<close>

definition iso_format :: string where
  "iso_format = ''%Y-%m-%dT%H:%M:%S''"

definition demo_lib :: pylib where
  "demo_lib =
     \<lparr>strptime = (\<lambda>s fmt.
        if fmt = ''%Y-%m-%dT%H:%M:%S'' \<and> s = ''2020-01-01T00:00:00''
          then Inr (2020, 1, 1, 0, 0, 0)
        else if fmt = ''%Y-%m-%dT%H:%M:%S'' \<and> s = ''2020-06-01T00:00:00''
          then Inr (2020, 6, 1, 0, 0, 0)
        else Inl ValueError),
      mktime = (\<lambda>tm.
        if tm = (2020, 1, 1, 0, 0, 0) then Inr 1577836800
        else if tm = (2020, 6, 1, 0, 0, 0) then Inr 1590969600
        else Inl OverflowError),
      clock = 1700000000\<rparr>"

definition demo_zip :: zipfile where
  "demo_zip =
     \<lparr>entries = [''a.txt'' \<mapsto> Inr ''hello'', ''dir/'' \<mapsto> Inr []],
      fp = True, release_error = None\<rparr>"

definition failing_zip :: zipfile where
  "failing_zip = demo_zip\<lparr>release_error := Some OSError\<rparr>"

definition manifest :: "row list \<Rightarrow> dataframe" where
  "manifest rows =
     [(''input'', map fst rows),
      (''output'', map (\<lambda>r. fst (snd r)) rows),
      (''creation_date'', map (\<lambda>r. fst (snd (snd r))) rows),
      (''modified_date'', map (\<lambda>r. snd (snd (snd r))) rows)]"

definition open_session :: "zipfile \<Rightarrow> dataframe \<Rightarrow> session" where
  "open_session z d =
     fst (init (Inr z) (Inr d) ''input'' ''output'' ''creation_date'' ''modified_date'')"

definition file_row :: row where
  "file_row = (''a.txt'', ''out/a.txt'', ''2020-01-01T00:00:00'', ''2020-06-01T00:00:00'')"

definition dir_row :: row where
  "dir_row = (''dir/'', ''out/'', ''2020-01-01T00:00:00'', ''2020-01-01T00:00:00'')"

definition demo_session :: session where
  "demo_session = open_session demo_zip (manifest [dir_row, file_row])"

definition empty_world :: world where
  "empty_world = \<lparr>fs = Map.empty, stdout = [], calls = []\<rparr>"

section \<open>Notions for the statements about a whole run\<close>



text \<open>
  The request a row makes of the destination tree once its dates are parsed and its
  entry is read (\<open>row_op\<close>), the change the request makes (\<open>apply_op\<close>, the
  two branches of the loop body), and a run of requests that stops at the first
  exception (\<open>run_ops\<close>). \<open>op_map\<close> is what a request that succeeds lays over
  the tree: a directory at the destination and at each of its ancestors, or the one
  file with its bytes and times; \<open>row_map\<close> is that for a row. \<open>plain_row\<close> is
  a row with a plain destination and two dates in the range that every file system
  stores. \<open>kind_le f g\<close> says that what is a directory or a file in \<open>f\<close> is one
  in \<open>g\<close>.
\<close>

datatype fsop = MkDirs string | Put string bytes int int

definition row_op :: "pylib \<Rightarrow> session \<Rightarrow> string \<Rightarrow> row \<Rightarrow> error + fsop" where
  "row_op lib s fmt r =
     (case r of (zipped, out_path, cd, md) \<Rightarrow>
        (case to_epoch lib cd fmt of
           Inl e \<Rightarrow> Inl e
         | Inr c \<Rightarrow>
        (case to_epoch lib md fmt of
           Inl e \<Rightarrow> Inl e
         | Inr m \<Rightarrow>
        (case read_entry s zipped of
           Inl e \<Rightarrow> Inl e
         | Inr data \<Rightarrow>
             Inr (if endswith out_path ''/'' then MkDirs out_path
                  else Put out_path data c m)))))"

definition apply_op :: "int \<Rightarrow> fsop \<Rightarrow> filesystem \<Rightarrow> filesystem \<times> error option" where
  "apply_op now a f =
     (case a of
        MkDirs s \<Rightarrow>
          (case makedirs f s of Inl e \<Rightarrow> (f, Some e) | Inr f' \<Rightarrow> (f', None))
      | Put s data c m \<Rightarrow>
          (case open_wb now f s data of
             Inl e \<Rightarrow> (f, Some e)
           | Inr f1 \<Rightarrow>
               (case utime f1 s (c, m) of
                  Inl e \<Rightarrow> (f1, Some e)
                | Inr f2 \<Rightarrow> (f2, None))))"

fun run_ops :: "int \<Rightarrow> (error + fsop) list \<Rightarrow> filesystem \<Rightarrow> filesystem \<times> error option" where
  "run_ops now [] f = (f, None)"
| "run_ops now (Inl e # xs) f = (f, Some e)"
| "run_ops now (Inr a # xs) f =
     (case apply_op now a f of
        (f', Some e) \<Rightarrow> (f', Some e)
      | (f', None) \<Rightarrow> run_ops now xs f')"

definition op_map :: "fsop \<Rightarrow> filesystem" where
  "op_map a =
     (case a of
        MkDirs s \<Rightarrow> (\<lambda>q. if prefix q (path_of s) \<and> \<not> is_root q then Some Dir else None)
      | Put s data c m \<Rightarrow> [path_of s \<mapsto> File data c m])"



fun ops_map :: "(error + fsop) list \<Rightarrow> filesystem" where
  "ops_map [] = Map.empty"
| "ops_map (Inl e # xs) = Map.empty"
| "ops_map (Inr a # xs) = op_map a ++ ops_map xs"

definition kind_le :: "filesystem \<Rightarrow> filesystem \<Rightarrow> bool" where
  "kind_le f g = (\<forall>p. (isdir f p \<longrightarrow> isdir g p) \<and> (isfile f p \<longrightarrow> isfile g p))"

lemmas model_defs =
  extract_files_def extract_row_def select_rows_def init_def close_def zip_close_def
  zip_read_def read_entry_def to_epoch_def endswith_def makedirs_def open_wb_def utime_def path_of_def
  ancestors_def isdir_def isfile_def is_root_def

lemmas demo_defs =
  iso_format_def demo_lib_def demo_zip_def failing_zip_def manifest_def open_session_def
  file_row_def dir_row_def demo_session_def empty_world_def

section \<open>Closing a session\<close>

lemma close_closed_noop: "closed s \<noteq> Some False \<Longrightarrow> close s = (s, None)"
  by (cases "closed s") (auto simp: close_def)

lemma close_sets_flag: "closed (fst (close s)) \<noteq> Some False"
  by (cases "closed s") (auto simp: close_def split: option.splits)

lemma close_again: "close (fst (close s)) = (fst (close s), None)"
  by (rule close_closed_noop) (rule close_sets_flag)

lemma close_iter: "((\<lambda>t. fst (close t)) ^^ n) (fst (close s)) = fst (close s)"
  by (induction n) (simp_all add: close_again)

text \<open>
  C10: once \<open>close\<close> has run on an open session the flag is set, whatever releasing
  the archive raised, and every later \<open>close\<close> returns without raising and without
  touching the session, so the archive is not released again.
\<close>

theorem close_marks_closed:
  "closed s = Some False \<Longrightarrow>
     closed (fst (close s)) = Some True \<and>
     (\<forall>n. close (((\<lambda>t. fst (close t)) ^^ n) (fst (close s))) = (fst (close s), None))"
  by (simp add: close_iter close_again) (simp add: close_def split: option.splits)

text \<open>
  The archive of this session raises \<open>OSError\<close> when it is released: the first
  \<open>close\<close> raises it, the flag is set all the same, and the second \<open>close\<close>
  raises nothing and leaves the archive as it is.
\<close>

theorem close_marks_closed_witness:
  "closed (open_session failing_zip (manifest [])) = Some False \<and>
   snd (close (open_session failing_zip (manifest []))) = Some OSError \<and>
   closed (fst (close (open_session failing_zip (manifest [])))) = Some True \<and>
   snd (close (fst (close (open_session failing_zip (manifest []))))) = None \<and>
   zip_file (fst (close (fst (close (open_session failing_zip (manifest []))))))
     = zip_file (fst (close (open_session failing_zip (manifest []))))"
  using close_marks_closed [of "open_session failing_zip (manifest [])"]
  by (simp add: model_defs demo_defs)

text \<open>
  C9: a second or any later \<open>close\<close> returns without raising, and so does \<open>close\<close>
  on the object of a construction that raised, before or after the archive was opened;
  the finalizer \<open>__del__\<close> never raises.
\<close>

theorem close_twice_or_unbuilt:
  "(\<forall>n. close (((\<lambda>t. fst (close t)) ^^ n) (fst (close s))) = (fst (close s), None)) \<and>
   (snd (init zo csv ic oc cc mc) \<noteq> None \<longrightarrow>
      close (fst (init zo csv ic oc cc mc)) = (fst (init zo csv ic oc cc mc), None)) \<and>
   snd (del_session s) = None"
  apply (simp add: close_iter close_again del_session_def)
  apply (rule impI, rule close_closed_noop)
  apply (auto simp: init_def Let_def split: sum.splits)
  done

theorem close_twice_or_unbuilt_witness:
  "snd (init (Inl FileNotFoundError) (Inr (manifest []))
          ''input'' ''output'' ''creation_date'' ''modified_date'') = Some FileNotFoundError \<and>
   snd (close (fst (init (Inl FileNotFoundError) (Inr (manifest []))
          ''input'' ''output'' ''creation_date'' ''modified_date''))) = None \<and>
   snd (close (fst (close (open_session demo_zip (manifest []))))) = None"
  using close_twice_or_unbuilt [of "open_session demo_zip (manifest [])"
      "Inl FileNotFoundError" "Inr (manifest [])"
      "''input''" "''output''" "''creation_date''" "''modified_date''"]
  by (simp add: model_defs demo_defs)

section \<open>Missing columns\<close>

lemma select_rows_missing:
  "c \<notin> fst ` set d \<Longrightarrow> c \<in> {a, b, x, y} \<Longrightarrow> select_rows d a b x y = Inl KeyError"
proof -
  assume "c \<notin> fst ` set d" and c: "c \<in> {a, b, x, y}"
  then have "map_of d c = None" by (simp add: map_of_eq_None_iff)
  with c show ?thesis
    by (auto simp: select_rows_def split: option.splits)
qed

text \<open>
  C1, as stated, fails: \<open>__init__\<close> reads the table and checks no column. With a
  manifest that has no \<open>modified_date\<close> column, construction raises nothing.
\<close>

theorem missing_column_counterexample:
  "snd (init (Inr demo_zip)
          (Inr [(''input'', [''a.txt'']), (''output'', [''out/a.txt'']),
                (''creation_date'', [''2020-01-01T00:00:00''])])
          ''input'' ''output'' ''creation_date'' ''modified_date'') = None"
  by (simp add: init_def)

text \<open>
  C1, amended: when the archive opens and the table is read, construction succeeds
  whatever the columns are; a missing required column raises \<open>KeyError\<close> when
  \<open>extract\<close> is called, at the selection of the columns, before any row is processed:
  nothing is printed and the destination tree is untouched.
\<close>

theorem missing_column_raises_in_extract:
  "c \<notin> fst ` set d \<Longrightarrow> c \<in> {ic, oc, cc, mc} \<Longrightarrow>
     snd (init (Inr z) (Inr d) ic oc cc mc) = None \<and>
     extract_files lib (fst (init (Inr z) (Inr d) ic oc cc mc)) date_format w
       = (w, Some KeyError)"
  using select_rows_missing [of c d ic oc cc mc]
  by (simp add: init_def extract_files_def)

theorem missing_column_raises_in_extract_witness:
  "''modified_date'' \<notin> fst ` set [(''input'', [''a.txt'']), (''output'', [''out/a.txt'']),
                (''creation_date'', [''2020-01-01T00:00:00''])] \<and>
   extract_files demo_lib
     (fst (init (Inr demo_zip)
          (Inr [(''input'', [''a.txt'']), (''output'', [''out/a.txt'']),
                (''creation_date'', [''2020-01-01T00:00:00''])])
          ''input'' ''output'' ''creation_date'' ''modified_date'')) iso_format empty_world
     = (empty_world, Some KeyError)"
  using missing_column_raises_in_extract [of "''modified_date''"
     "[(''input'', [''a.txt'']), (''output'', [''out/a.txt'']),
       (''creation_date'', [''2020-01-01T00:00:00''])]"
     "''input''" "''output''" "''creation_date''" "''modified_date''"
     demo_zip demo_lib iso_format empty_world]
  by simp

section \<open>\<open>extract\<close> on a closed session\<close>

lemma extract_row_closed_zip:
  "zip_file s = Some z \<Longrightarrow> \<not> fp z \<Longrightarrow> fs (fst (extract_row lib s fmt r w)) = fs w \<and>
      calls (fst (extract_row lib s fmt r w)) = calls w \<and>
      snd (extract_row lib s fmt r w) \<noteq> None"
  by (auto simp: extract_row_def read_entry_def zip_read_def Let_def
      split: prod.splits sum.splits)

lemma extract_row_closed_zip_dates:
  "zip_file s = Some z \<Longrightarrow> \<not> fp z \<Longrightarrow> to_epoch lib (fst (snd (snd r))) fmt = Inr c \<Longrightarrow>
     to_epoch lib (snd (snd (snd r))) fmt = Inr m \<Longrightarrow>
     snd (extract_row lib s fmt r w) = Some ValueError"
  by (auto simp: extract_row_def read_entry_def zip_read_def Let_def
      split: prod.splits sum.splits)

lemma extract_rows_closed_zip:
  "zip_file s = Some z \<Longrightarrow> \<not> fp z \<Longrightarrow>
     extract_rows lib s fmt (r # rs) w = extract_row lib s fmt r w"
  using extract_row_closed_zip [of s z lib fmt r w]
  by (cases "extract_row lib s fmt r w") auto

text \<open>
  C4, as stated, fails: \<open>extract\<close> never looks at the flag. On a closed session
  whose manifest has the four columns and no row, it returns without raising.
\<close>

theorem extract_after_close_counterexample:
  "closed (fst (close (open_session demo_zip (manifest [])))) = Some True \<and>
   extract_files demo_lib (fst (close (open_session demo_zip (manifest []))))
     iso_format empty_world = (empty_world, None)"
  by (simp add: model_defs demo_defs)

text \<open>
  C4, amended: on a session that \<open>close\<close> has closed, \<open>extract\<close> changes nothing
  in the destination tree; it returns without raising exactly when the manifest has no
  row, and when the dates of the first row parse it raises the \<open>ValueError\<close> of the
  read on the closed archive.
\<close>

theorem extract_after_close:
  assumes "closed s0 = Some False" and "zip_file s0 = Some z" and "df s0 = Some d"
    and "select_rows d (input_col s0) (output_col s0)
           (creation_date_col s0) (modified_date_col s0) = Inr rows"
  shows "fs (fst (extract_files lib (fst (close s0)) date_format w)) = fs w \<and>
         calls (fst (extract_files lib (fst (close s0)) date_format w)) = calls w \<and>
         (snd (extract_files lib (fst (close s0)) date_format w) = None) = (rows = []) \<and>
         (rows \<noteq> [] \<and> to_epoch lib (fst (snd (snd (hd rows)))) date_format = Inr c \<and>
            to_epoch lib (snd (snd (snd (hd rows)))) date_format = Inr m \<longrightarrow>
            snd (extract_files lib (fst (close s0)) date_format w) = Some ValueError)"
proof -
  have nfp: "\<not> fp (fst (zip_close z))" by (simp add: zip_close_def)
  from assms have zf: "zip_file (fst (close s0)) = Some (fst (zip_close z))"
    by (simp add: close_def)
  note R = extract_row_closed_zip [OF zf nfp, of lib date_format _ w]
  note D = extract_row_closed_zip_dates [OF zf nfp, of lib _ date_format _ _ w]
  note L = extract_rows_closed_zip [OF zf nfp, of lib date_format _ _ w]
  show ?thesis
  proof (cases rows)
    case Nil
    with assms show ?thesis by (simp add: extract_files_def close_def)
  next
    case (Cons r rs)
    with assms have "extract_files lib (fst (close s0)) date_format w
        = extract_rows lib (fst (close s0)) date_format (r # rs) w"
      by (simp add: extract_files_def close_def del: extract_rows.simps)
    then have "extract_files lib (fst (close s0)) date_format w
        = extract_row lib (fst (close s0)) date_format r w"
      by (simp only: L)
    with Cons R [of r] D [of r c m] show ?thesis by simp
  qed
qed

theorem extract_after_close_witness:
  "closed (open_session demo_zip (manifest [file_row])) = Some False \<and>
   closed (fst (close (open_session demo_zip (manifest [file_row])))) = Some True \<and>
   snd (extract_files demo_lib (fst (close (open_session demo_zip (manifest [file_row]))))
      iso_format empty_world) = Some ValueError \<and>
   fs (fst (extract_files demo_lib (fst (close (open_session demo_zip (manifest [file_row]))))
      iso_format empty_world)) = Map.empty"
  using extract_after_close [where ?s0.0 = "open_session demo_zip (manifest [file_row])"
      and z = demo_zip and d = "manifest [file_row]" and rows = "[file_row]"
      and lib = demo_lib and date_format = iso_format and c = 1577836800
      and m = 1590969600 and w = empty_world]
  by (simp add: model_defs demo_defs)

section \<open>One row of the manifest\<close>

lemma isdir_not_isfile: "isdir f p \<Longrightarrow> \<not> isfile f p"
  by (auto simp: isdir_def isfile_def)

lemma all_dirs_no_file: "list_all (isdir f) ps \<Longrightarrow> \<not> list_ex (isfile f) ps"
  by (auto simp: list_all_iff list_ex_iff dest: isdir_not_isfile)

lemma open_wb_ok:
  "list_all (isdir f) (ancestors (path_of s)) \<Longrightarrow> \<not> isdir f (path_of s) \<Longrightarrow>
     open_wb now f s data =
       Inr (f(path_of s \<mapsto> File data (case f (path_of s) of Some (File d a m) \<Rightarrow> a | _ \<Rightarrow> now) now))"
  by (auto simp: open_wb_def Let_def all_dirs_no_file path_of_def isdir_def is_root_def)

lemma utime_after_write:
  "\<not> is_root p \<Longrightarrow> path_of s = p \<Longrightarrow>
     utime (f(p \<mapsto> File data a b)) s (c, m) = Inr (f(p \<mapsto> File data c m))"
  by (simp add: utime_def isfile_def)

lemma extract_row_file:
  assumes "\<not> endswith out_path ''/''"
    and "to_epoch lib cd fmt = Inr c" and "to_epoch lib md fmt = Inr m"
    and "read_entry s zipped = Inr data"
    and "list_all (isdir (fs w)) (ancestors (path_of out_path))"
    and "\<not> isdir (fs w) (path_of out_path)"
  shows "extract_row lib s fmt (zipped, out_path, cd, md) w =
           (w\<lparr>stdout := stdout w @ [(zipped, out_path, c, m)],
              fs := (fs w)(path_of out_path \<mapsto> File data c m),
              calls := calls w @ [Write out_path data, Utime out_path c m]\<rparr>, None)"
proof -
  from assms(6) have nr: "\<not> is_root (path_of out_path)" by (simp add: isdir_def)
  show ?thesis
    using assms
    by (simp add: extract_row_def open_wb_ok utime_after_write [OF nr refl])
qed














section \<open>The scenario of the specification, and dates that do not parse\<close>

lemma zip_columns:
  "zip (map fst rows) (zip (map (\<lambda>r. fst (snd r)) rows)
     (zip (map (\<lambda>r. fst (snd (snd r))) rows) (map (\<lambda>r. snd (snd (snd r))) rows))) = rows"
  by (induction rows) auto

lemma select_rows_manifest:
  "select_rows (manifest rows) ''input'' ''output'' ''creation_date'' ''modified_date'' = Inr rows"
  by (simp add: select_rows_def manifest_def zip_columns)

lemma extract_files_rows:
  "df s = Some d \<Longrightarrow>
     select_rows d (input_col s) (output_col s) (creation_date_col s) (modified_date_col s)
       = Inr rows \<Longrightarrow>
     extract_files lib s fmt w = extract_rows lib s fmt rows w"
  by (simp add: extract_files_def)

text \<open>
  C6, as stated, fails on a destination tree without the directory \<open>out\<close>: the
  run raises \<open>FileNotFoundError\<close> and \<open>out/a.txt\<close> does not exist.
\<close>

theorem scenario_counterexample:
  "snd (extract_files demo_lib (open_session demo_zip (manifest [file_row]))
          iso_format empty_world) = Some FileNotFoundError \<and>
   fs (fst (extract_files demo_lib (open_session demo_zip (manifest [file_row]))
          iso_format empty_world)) [''out'', ''a.txt''] = None"
  by (simp add: model_defs demo_defs)

text \<open>
  C6, amended: when the directory \<open>out\<close> exists and \<open>out/a.txt\<close> is not a
  directory, the run of the scenario returns without raising, and afterwards
  \<open>out/a.txt\<close> holds exactly \<open>hello\<close>, its access time is the epoch of
  \<open>creation_date\<close> and its modification time the epoch of \<open>modified_date\<close>,
  whatever date parser and time zone are in use; nothing else in the tree changes.
\<close>

theorem scenario_written:
  assumes "to_epoch lib ''2020-01-01T00:00:00'' ''%Y-%m-%dT%H:%M:%S'' = Inr c"
    and "to_epoch lib ''2020-06-01T00:00:00'' ''%Y-%m-%dT%H:%M:%S'' = Inr m"
    and "zip_read z ''a.txt'' = Inr ''hello''"
    and "isdir (fs w) [''out'']" and "\<not> isdir (fs w) [''out'', ''a.txt'']"
  shows "snd (extract_files lib
                (open_session z
                   [(''input'', [''a.txt'']), (''output'', [''out/a.txt'']),
                    (''creation_date'', [''2020-01-01T00:00:00'']),
                    (''modified_date'', [''2020-06-01T00:00:00''])])
                ''%Y-%m-%dT%H:%M:%S'' w) = None \<and>
         fs (fst (extract_files lib
                (open_session z
                   [(''input'', [''a.txt'']), (''output'', [''out/a.txt'']),
                    (''creation_date'', [''2020-01-01T00:00:00'']),
                    (''modified_date'', [''2020-06-01T00:00:00''])])
                ''%Y-%m-%dT%H:%M:%S'' w))
           = (fs w)([''out'', ''a.txt''] \<mapsto> File ''hello'' c m)"
proof -
  have p: "path_of ''out/a.txt'' = [''out'', ''a.txt'']" by (simp add: path_of_def)
  have e: "\<not> endswith ''out/a.txt'' ''/''" by (simp add: endswith_def)
  have anc: "list_all (isdir (fs w)) (ancestors (path_of ''out/a.txt''))"
    using assms(4) by (simp add: p ancestors_def isdir_def is_root_def)
  have nd: "\<not> isdir (fs w) (path_of ''out/a.txt'')"
    using assms(5) by (simp add: p)
  let ?s = "open_session z
                   [(''input'', [''a.txt'']), (''output'', [''out/a.txt'']),
                    (''creation_date'', [''2020-01-01T00:00:00'']),
                    (''modified_date'', [''2020-06-01T00:00:00''])]"
  have rd: "read_entry ?s ''a.txt'' = Inr ''hello''"
    using assms(3) by (simp add: read_entry_def open_session_def init_def)
  note R = extract_row_file [OF e assms(1) assms(2) rd anc nd]
  have "extract_files lib ?s ''%Y-%m-%dT%H:%M:%S'' w
      = extract_rows lib ?s ''%Y-%m-%dT%H:%M:%S''
          [(''a.txt'', ''out/a.txt'', ''2020-01-01T00:00:00'', ''2020-06-01T00:00:00'')] w"
    by (simp add: extract_files_def open_session_def init_def select_rows_def)
  then show ?thesis
    by (simp add: R p)
qed

theorem scenario_written_witness:
  "fs (fst (extract_files demo_lib
                (open_session demo_zip
                   [(''input'', [''a.txt'']), (''output'', [''out/a.txt'']),
                    (''creation_date'', [''2020-01-01T00:00:00'']),
                    (''modified_date'', [''2020-06-01T00:00:00''])])
                ''%Y-%m-%dT%H:%M:%S'' (empty_world\<lparr>fs := [[''out''] \<mapsto> Dir]\<rparr>)))
     [''out'', ''a.txt''] = Some (File ''hello'' 1577836800 1590969600)"
proof -
  have b: "to_epoch demo_lib ''2020-01-01T00:00:00'' ''%Y-%m-%dT%H:%M:%S'' = Inr 1577836800"
    and c: "to_epoch demo_lib ''2020-06-01T00:00:00'' ''%Y-%m-%dT%H:%M:%S'' = Inr 1590969600"
    by (simp_all add: to_epoch_def demo_defs)
  have d: "zip_read demo_zip ''a.txt'' = Inr ''hello''"
    by (simp add: zip_read_def demo_defs)
  have f: "isdir (fs (empty_world\<lparr>fs := [[''out''] \<mapsto> Dir]\<rparr>)) [''out'']"
    and g: "\<not> isdir (fs (empty_world\<lparr>fs := [[''out''] \<mapsto> Dir]\<rparr>)) [''out'', ''a.txt'']"
    by (simp_all add: isdir_def is_root_def)
  show ?thesis
    using scenario_written [OF b c d f g] by simp
qed

lemma extract_rows_append:
  "extract_rows lib s fmt (xs @ ys) w =
     (case extract_rows lib s fmt xs w of
        (w', None) \<Rightarrow> extract_rows lib s fmt ys w'
      | (w', Some e) \<Rightarrow> (w', Some e))"
  by (induction xs arbitrary: w) (auto split: prod.splits option.splits)

lemma extract_row_bad_date:
  assumes "strptime lib cd fmt = Inl e \<or>
           (to_epoch lib cd fmt = Inr c \<and> strptime lib md fmt = Inl e)"
  shows "extract_row lib s fmt (zipped, out_path, cd, md) w = (w, Some e)"
  using assms by (auto simp: extract_row_def to_epoch_def)

text \<open>
  C5, as stated, fails in the exception it names: the source has no
  \<open>DateParseError\<close>, and the exception of \<open>strptime\<close> passes through
  unchanged. It is the same value for a bad \<open>creation_date\<close> in the first row and
  for a bad \<open>modified_date\<close> in the second, so it carries neither row nor field.
\<close>

theorem bad_date_counterexample:
  "snd (extract_files demo_lib
          (open_session demo_zip
             (manifest [(''a.txt'', ''out/a.txt'', ''01/01/2020'', ''2020-06-01T00:00:00'')]))
          iso_format empty_world) = Some ValueError \<and>
   snd (extract_files demo_lib
          (open_session demo_zip
             (manifest [dir_row, (''a.txt'', ''out/a.txt'', ''2020-01-01T00:00:00'', ''01/01/2020'')]))
          iso_format empty_world) = Some ValueError"
  by (simp add: model_defs demo_defs)

text \<open>
  C5, amended: when \<open>strptime\<close> rejects the \<open>creation_date\<close> or the
  \<open>modified_date\<close> of a row, \<open>extract\<close> raises that exception of
  \<open>strptime\<close>; the world it leaves is exactly the one the rows before had produced:
  that row and the rows after it print nothing and change nothing, and nothing is
  rolled back.
\<close>

theorem bad_date_aborts:
  assumes "df s = Some d"
    and "select_rows d (input_col s) (output_col s) (creation_date_col s)
           (modified_date_col s) = Inr (pre @ (zipped, out_path, cd, md) # post)"
    and "extract_rows lib s date_format pre w = (w1, None)"
    and "strptime lib cd date_format = Inl e \<or>
           (to_epoch lib cd date_format = Inr c \<and> strptime lib md date_format = Inl e)"
  shows "extract_files lib s date_format w = (w1, Some e)"
proof -
  have "extract_rows lib s date_format (pre @ (zipped, out_path, cd, md) # post) w = (w1, Some e)"
    using assms(3) extract_row_bad_date [OF assms(4)]
    by (simp add: extract_rows_append)
  with assms(1,2) show ?thesis
    by (simp add: extract_files_rows)
qed

theorem bad_date_aborts_witness:
  "extract_files demo_lib
      (open_session demo_zip
         (manifest [dir_row, (''a.txt'', ''out/a.txt'', ''2020-01-01T00:00:00'', ''01/01/2020''),
                    (''a.txt'', ''out/b.txt'', ''2020-01-01T00:00:00'', ''2020-06-01T00:00:00'')]))
      iso_format empty_world
   = (\<lparr>fs = [[''out''] \<mapsto> Dir],
       stdout = [(''dir/'', ''out/'', 1577836800, 1577836800)],
       calls = [Makedirs ''out/'']\<rparr>, Some ValueError)"
proof -
  let ?rows = "[dir_row, (''a.txt'', ''out/a.txt'', ''2020-01-01T00:00:00'', ''01/01/2020''),
                    (''a.txt'', ''out/b.txt'', ''2020-01-01T00:00:00'', ''2020-06-01T00:00:00'')]"
  let ?s = "open_session demo_zip (manifest ?rows)"
  have a: "df ?s = Some (manifest ?rows)"
    by (simp add: open_session_def init_def)
  have c: "select_rows (manifest ?rows) (input_col ?s) (output_col ?s) (creation_date_col ?s)
           (modified_date_col ?s) =
           Inr ([dir_row] @ (''a.txt'', ''out/a.txt'', ''2020-01-01T00:00:00'', ''01/01/2020'') #
             [(''a.txt'', ''out/b.txt'', ''2020-01-01T00:00:00'', ''2020-06-01T00:00:00'')])"
    by (simp add: open_session_def init_def select_rows_manifest)
  have d: "extract_rows demo_lib (open_session demo_zip (manifest ?rows)) iso_format [dir_row] empty_world =
      (\<lparr>fs = [[''out''] \<mapsto> Dir],
       stdout = [(''dir/'', ''out/'', 1577836800, 1577836800)],
       calls = [Makedirs ''out/'']\<rparr>, None)"
    by (simp add: model_defs demo_defs) (auto simp: fun_eq_iff prefix_Cons)
  have e: "strptime demo_lib ''2020-01-01T00:00:00'' iso_format = Inl ValueError \<or>
           (to_epoch demo_lib ''2020-01-01T00:00:00'' iso_format = Inr 1577836800 \<and>
            strptime demo_lib ''01/01/2020'' iso_format = Inl ValueError)"
    by (simp add: to_epoch_def demo_defs)
  show ?thesis
    using bad_date_aborts [OF a c d e] .
qed

section \<open>The calls of a run\<close>



section \<open>Running \<open>extract\<close> twice\<close>

lemma open_wb_then_utime:
  "open_wb now f s data = Inr f1 \<Longrightarrow>
     utime f1 s (c, m) = Inr (f(path_of s \<mapsto> File data c m))"
  by (auto simp: open_wb_def utime_def Let_def isfile_def isdir_def split: if_splits)

lemma extract_row_as_op:
  "fs (fst (extract_row lib s fmt r w)) =
     fst (case row_op lib s fmt r of Inl e \<Rightarrow> (fs w, Some e)
          | Inr a \<Rightarrow> apply_op (clock lib) a (fs w)) \<and>
   snd (extract_row lib s fmt r w) =
     snd (case row_op lib s fmt r of Inl e \<Rightarrow> (fs w, Some e)
          | Inr a \<Rightarrow> apply_op (clock lib) a (fs w))"
  by (auto simp: extract_row_def row_op_def apply_op_def Let_def
      split: prod.splits sum.splits)

lemma extract_rows_as_ops:
  "fs (fst (extract_rows lib s fmt rows w)) =
     fst (run_ops (clock lib) (map (row_op lib s fmt) rows) (fs w)) \<and>
   snd (extract_rows lib s fmt rows w) =
     snd (run_ops (clock lib) (map (row_op lib s fmt) rows) (fs w))"
proof (induction rows arbitrary: w)
  case Nil
  then show ?case by simp
next
  case (Cons r rs)
  obtain w1 e1 where 1: "extract_row lib s fmt r w = (w1, e1)"
    by (cases "extract_row lib s fmt r w")
  note A = extract_row_as_op [of lib s fmt r w, unfolded 1, simplified]
  show ?case
  proof (cases "row_op lib s fmt r")
    case (Inl e)
    with A 1 show ?thesis by (auto split: option.splits)
  next
    case (Inr a)
    obtain f1 e2 where 2: "apply_op (clock lib) a (fs w) = (f1, e2)"
      by (cases "apply_op (clock lib) a (fs w)")
    with A Inr have "fs w1 = f1" "e1 = e2" by simp_all
    with 1 2 Inr Cons.IH [of w1] show ?thesis
      by (cases e2) simp_all
  qed
qed

lemma kind_le_refl: "kind_le f f"
  by (simp add: kind_le_def)

lemma kind_le_trans: "kind_le f g \<Longrightarrow> kind_le g h \<Longrightarrow> kind_le f h"
  by (simp add: kind_le_def)

lemma prefix_cases: "prefix q p \<Longrightarrow> q \<in> set (ancestors p) \<or> q = p"
proof -
  assume "prefix q p"
  then have "q \<in> set (prefixes p)" by (simp add: in_set_prefixes)
  moreover have "prefixes p = ancestors p @ [p]"
    unfolding ancestors_def
    by (metis append_butlast_last_id last_prefixes prefixes_not_Nil)
  ultimately show ?thesis by auto
qed

lemma ancestors_prefix: "q \<in> set (ancestors p) \<Longrightarrow> prefix q p"
  unfolding ancestors_def by (auto dest: in_set_butlastD simp: in_set_prefixes)

text \<open>What a request needs to succeed, and what it leaves.\<close>

lemma apply_MkDirs:
  "apply_op now (MkDirs s) f = (f', None) \<Longrightarrow>
     s \<noteq> [] \<and> (\<forall>q. prefix q (path_of s) \<longrightarrow> \<not> isfile f q) \<and>
     f' = (\<lambda>q. if prefix q (path_of s) \<and> \<not> is_root q then Some Dir else f q)"
  by (auto simp: apply_op_def makedirs_def Let_def list_ex_iff
      split: if_splits sum.splits dest: prefix_cases)

lemma apply_MkDirs_ok:
  "s \<noteq> [] \<Longrightarrow> \<forall>q. prefix q (path_of s) \<longrightarrow> \<not> isfile f q \<Longrightarrow>
     apply_op now (MkDirs s) f =
       ((\<lambda>q. if prefix q (path_of s) \<and> \<not> is_root q then Some Dir else f q), None)"
  by (auto simp: apply_op_def makedirs_def Let_def list_ex_iff dest: ancestors_prefix)

lemma open_wb_Inr:
  "open_wb now f s data = Inr f1 \<Longrightarrow>
     s \<noteq> [] \<and> list_all (isdir f) (ancestors (path_of s)) \<and> \<not> isdir f (path_of s)"
  by (auto simp: open_wb_def Let_def split: if_splits)

lemma apply_Put:
  "apply_op now (Put s data c m) f = (f', None) \<Longrightarrow>
     s \<noteq> [] \<and> list_all (isdir f) (ancestors (path_of s)) \<and> \<not> isdir f (path_of s) \<and>
     f' = f(path_of s \<mapsto> File data c m)"
proof -
  assume a: "apply_op now (Put s data c m) f = (f', None)"
  then obtain f1 where 1: "open_wb now f s data = Inr f1"
    by (auto simp: apply_op_def split: sum.splits)
  from a 1 open_wb_then_utime [OF 1, of c m] have "f' = f(path_of s \<mapsto> File data c m)"
    by (simp add: apply_op_def)
  with open_wb_Inr [OF 1] show ?thesis by simp
qed

lemma apply_Put_ok:
  "s \<noteq> [] \<Longrightarrow> list_all (isdir f) (ancestors (path_of s)) \<Longrightarrow> \<not> isdir f (path_of s) \<Longrightarrow>
     apply_op now (Put s data c m) f = (f(path_of s \<mapsto> File data c m), None)"
proof -
  assume a: "s \<noteq> []" "list_all (isdir f) (ancestors (path_of s))" "\<not> isdir f (path_of s)"
  then have "\<not> list_ex (isfile f) (ancestors (path_of s))"
    by (auto simp: list_all_iff list_ex_iff dest: isdir_not_isfile)
  with a obtain f1 where 1: "open_wb now f s data = Inr f1"
    by (simp add: open_wb_def Let_def)
  from open_wb_then_utime [OF 1] 1 show ?thesis
    by (simp add: apply_op_def)
qed

lemma apply_op_atomic: "apply_op now a f = (f', Some e) \<Longrightarrow> f' = f"
  by (cases a) (auto simp: apply_op_def open_wb_then_utime split: sum.splits)

lemma apply_op_map: "apply_op now a f = (f', None) \<Longrightarrow> f' = f ++ op_map a"
proof (cases a)
  case (MkDirs s)
  assume "apply_op now a f = (f', None)"
  with MkDirs show ?thesis
    by (auto dest!: apply_MkDirs simp: op_map_def map_add_def fun_eq_iff)
next
  case (Put s data c m)
  assume "apply_op now a f = (f', None)"
  with Put show ?thesis
    by (auto dest!: apply_Put simp: op_map_def)
qed

lemma apply_op_kind: "apply_op now a f = (f', None) \<Longrightarrow> kind_le f f'"
proof (cases a)
  case (MkDirs s)
  assume "apply_op now a f = (f', None)"
  with MkDirs show ?thesis
    by (auto dest!: apply_MkDirs simp: kind_le_def isdir_def isfile_def split: if_splits)
next
  case (Put s data c m)
  assume "apply_op now a f = (f', None)"
  with Put show ?thesis
    by (auto dest!: apply_Put simp: kind_le_def isdir_def isfile_def split: if_splits)
qed

lemma apply_op_again:
  assumes "apply_op now a f = (f', None)" and "kind_le f' g"
  shows "\<exists>g'. apply_op now a g = (g', None)"
proof (cases a)
  case (MkDirs s)
  with assms(1) have s: "s \<noteq> []"
    and f': "f' = (\<lambda>q. if prefix q (path_of s) \<and> \<not> is_root q then Some Dir else f q)"
    by (auto dest: apply_MkDirs)
  have "isdir f' q" if "prefix q (path_of s)" for q
    using that by (simp add: f' isdir_def)
  with assms(2) have "\<forall>q. prefix q (path_of s) \<longrightarrow> \<not> isfile g q"
    by (auto simp: kind_le_def dest: isdir_not_isfile)
  from apply_MkDirs_ok [OF s this] MkDirs show ?thesis by blast
next
  case (Put s data c m)
  with assms(1) have s: "s \<noteq> []"
    and anc: "list_all (isdir f) (ancestors (path_of s))"
    and nd: "\<not> isdir f (path_of s)"
    and f': "f' = f(path_of s \<mapsto> File data c m)"
    by (auto dest: apply_Put)
  from apply_op_kind [OF assms(1)] assms(2) have le: "kind_le f g"
    by (rule kind_le_trans)
  from anc le have 1: "list_all (isdir g) (ancestors (path_of s))"
    by (auto simp: list_all_iff kind_le_def)
  from nd have "isfile f' (path_of s)"
    by (simp add: f' isfile_def isdir_def)
  with assms(2) have "isfile g (path_of s)" by (simp add: kind_le_def)
  then have 2: "\<not> isdir g (path_of s)" by (auto dest: isdir_not_isfile)
  from apply_Put_ok [OF s 1 2] Put show ?thesis by blast
qed

text \<open>Runs of requests: the tree only grows, and a run that went through goes through again.\<close>

lemma run_ops_map: "run_ops now xs f = (f', None) \<Longrightarrow> f' = f ++ ops_map xs"
proof (induction now xs f rule: run_ops.induct)
  case (3 now a xs f)
  then obtain f1 where 1: "apply_op now a f = (f1, None)"
    and 2: "run_ops now xs f1 = (f', None)"
    by (auto split: prod.splits option.splits)
  from "3.IH" [OF _ _ 2] 1 have "f' = f1 ++ ops_map xs" by simp
  with apply_op_map [OF 1] show ?case by simp
qed simp_all

lemma run_ops_kind: "run_ops now xs f = (f', oe) \<Longrightarrow> kind_le f f'"
proof (induction now xs f rule: run_ops.induct)
  case (3 now a xs f)
  obtain f1 e1 where 1: "apply_op now a f = (f1, e1)" by (cases "apply_op now a f")
  show ?case
  proof (cases e1)
    case None
    with 1 "3.prems" have 2: "run_ops now xs f1 = (f', oe)" by simp
    from "3.IH" [OF _ _ 2] 1 None have "kind_le f1 f'" by simp
    with apply_op_kind [of now a f f1] 1 None show ?thesis
      by (auto intro: kind_le_trans)
  next
    case (Some e)
    with 1 "3.prems" apply_op_atomic [of now a f f1 e] show ?thesis
      by (simp add: kind_le_refl)
  qed
qed (simp_all add: kind_le_refl)

lemma run_ops_again:
  "run_ops now xs f = (f', None) \<Longrightarrow> kind_le f' g \<Longrightarrow>
     \<exists>g'. run_ops now xs g = (g', None) \<and> kind_le g g'"
proof (induction now xs f arbitrary: g rule: run_ops.induct)
  case (1 now f)
  then show ?case by (simp add: kind_le_refl)
next
  case (2 now e xs f)
  then show ?case by simp
next
  case (3 now a xs f)
  from "3.prems"(1) obtain f1 where 1: "apply_op now a f = (f1, None)"
    and 2: "run_ops now xs f1 = (f', None)"
    by (auto split: prod.splits option.splits)
  from run_ops_kind [OF 2] "3.prems"(2) have "kind_le f1 g" by (rule kind_le_trans)
  from apply_op_again [OF 1 this] obtain g1 where g1: "apply_op now a g = (g1, None)"
    by blast
  from apply_op_kind [OF g1] have le: "kind_le g g1" .
  with "3.prems"(2) have "kind_le f' g1" by (rule kind_le_trans)
  from "3.IH" [OF _ _ 2 this] 1 obtain g' where
    g': "run_ops now xs g1 = (g', None)" "kind_le g1 g'" by auto
  with g1 le show ?case by (auto intro: kind_le_trans)
qed

lemma map_add_twice: "(f ++ m) ++ m = f ++ m"
  by (simp add: fun_eq_iff map_add_def split: option.splits)

lemma run_ops_twice_ok: "run_ops now xs f = (f', None) \<Longrightarrow> run_ops now xs f' = (f', None)"
proof -
  assume 1: "run_ops now xs f = (f', None)"
  from run_ops_again [OF 1 kind_le_refl] obtain g' where 2: "run_ops now xs f' = (g', None)"
    by blast
  from run_ops_map [OF 1] run_ops_map [OF 2] have "g' = f'"
    by (simp add: map_add_twice)
  with 2 show ?thesis by simp
qed

lemma run_ops_append:
  "run_ops now (xs @ ys) f =
     (case run_ops now xs f of (f', None) \<Rightarrow> run_ops now ys f' | (f', Some e) \<Rightarrow> (f', Some e))"
  by (induction now xs f rule: run_ops.induct) (auto split: prod.splits option.splits)

lemma run_ops_fails:
  "run_ops now xs f = (f', Some e) \<Longrightarrow>
     \<exists>pre x post. xs = pre @ x # post \<and> run_ops now pre f = (f', None) \<and>
        run_ops now [x] f' = (f', Some e)"
proof (induction now xs f rule: run_ops.induct)
  case (1 now f)
  then show ?case by simp
next
  case (2 now e' xs f)
  then have "Inl e' # xs = [] @ Inl e' # xs \<and> run_ops now [] f = (f', None) \<and>
      run_ops now [Inl e'] f' = (f', Some e)" by simp
  then show ?case by blast
next
  case (3 now a xs f)
  obtain f1 e1 where 1: "apply_op now a f = (f1, e1)" by (cases "apply_op now a f")
  show ?case
  proof (cases e1)
    case None
    with 1 "3.prems" have 2: "run_ops now xs f1 = (f', Some e)" by simp
    from "3.IH" [OF _ _ 2] 1 None obtain pre x post where
      p: "xs = pre @ x # post" "run_ops now pre f1 = (f', None)"
         "run_ops now [x] f' = (f', Some e)" by auto
    from p 1 None have "Inr a # xs = (Inr a # pre) @ x # post \<and>
       run_ops now (Inr a # pre) f = (f', None) \<and> run_ops now [x] f' = (f', Some e)"
      by simp
    then show ?thesis by blast
  next
    case (Some e')
    with 1 "3.prems" apply_op_atomic [of now a f f1 e']
    have "f1 = f" "f' = f" "e' = e" by simp_all
    with 1 Some have "Inr a # xs = [] @ Inr a # xs \<and> run_ops now [] f = (f', None) \<and>
      run_ops now [Inr a] f' = (f', Some e)" by simp
    then show ?thesis by blast
  qed
qed

lemma run_ops_twice: "run_ops now xs (fst (run_ops now xs f)) = run_ops now xs f"
proof (cases "run_ops now xs f")
  case (Pair f' oe)
  show ?thesis
  proof (cases oe)
    case None
    with Pair show ?thesis by (simp add: run_ops_twice_ok)
  next
    case (Some e)
    with Pair run_ops_fails [of now xs f f' e] obtain pre x post where
      p: "xs = pre @ x # post" "run_ops now pre f = (f', None)"
         "run_ops now [x] f' = (f', Some e)" by auto
    from run_ops_twice_ok [OF p(2)] have "run_ops now pre f' = (f', None)" .
    moreover from p(3) have "run_ops now (x # post) f' = (f', Some e)"
      by (cases x) (auto split: prod.splits option.splits)
    ultimately have "run_ops now xs f' = (f', Some e)"
      by (simp add: p(1) run_ops_append)
    with Pair Some show ?thesis by simp
  qed
qed

lemma extract_files_shape:
  "(\<exists>e. \<forall>w. extract_files lib s fmt w = (w, Some e)) \<or>
   (\<exists>rows. \<forall>w. extract_files lib s fmt w = extract_rows lib s fmt rows w)"
proof (cases "df s")
  case None
  then show ?thesis by (simp add: extract_files_def)
next
  case (Some d)
  then show ?thesis
    by (cases "select_rows d (input_col s) (output_col s) (creation_date_col s)
                 (modified_date_col s)")
      (auto simp: extract_files_def)
qed

lemma extract_rows_twice:
  "fs (fst (extract_rows lib s fmt rows (fst (extract_rows lib s fmt rows w))))
     = fs (fst (extract_rows lib s fmt rows w)) \<and>
   snd (extract_rows lib s fmt rows (fst (extract_rows lib s fmt rows w)))
     = snd (extract_rows lib s fmt rows w)"
  using run_ops_twice [of "clock lib" "map (row_op lib s fmt) rows" "fs w"]
  by (simp add: extract_rows_as_ops)

text \<open>
  C8: a second \<open>extract\<close> on the same session, with the same format, on the world
  the first one left, leaves the destination tree exactly as the first one left it
  (the same directories, the same bytes and the same access and modification times in
  every file) and ends as the first one ended.
\<close>

theorem extract_twice:
  "fs (fst (extract_files lib s date_format (fst (extract_files lib s date_format w))))
     = fs (fst (extract_files lib s date_format w)) \<and>
   snd (extract_files lib s date_format (fst (extract_files lib s date_format w)))
     = snd (extract_files lib s date_format w)"
  using extract_files_shape [of lib s date_format] extract_rows_twice [of lib _ date_format _ w]
  by auto

theorem extract_twice_witness:
  "snd (extract_files demo_lib (open_session demo_zip (manifest [dir_row, file_row])) iso_format
     (fst (extract_files demo_lib (open_session demo_zip (manifest [dir_row, file_row]))
        iso_format empty_world))) = None \<and>
   fs (fst (extract_files demo_lib (open_session demo_zip (manifest [dir_row, file_row])) iso_format
     (fst (extract_files demo_lib (open_session demo_zip (manifest [dir_row, file_row]))
        iso_format empty_world)))) [''out'', ''a.txt'']
     = Some (File ''hello'' 1577836800 1590969600)"
proof -
  have "snd (extract_files demo_lib (open_session demo_zip (manifest [dir_row, file_row]))
        iso_format empty_world) = None"
    and "fs (fst (extract_files demo_lib (open_session demo_zip (manifest [dir_row, file_row]))
        iso_format empty_world)) [''out'', ''a.txt'']
       = Some (File ''hello'' 1577836800 1590969600)"
    by (simp_all add: model_defs demo_defs)
  with extract_twice [of demo_lib "open_session demo_zip (manifest [dir_row, file_row])"
      iso_format empty_world]
  show ?thesis by simp
qed

section \<open>The rows of a run, in order\<close>





end
